theory Spec2Isabelle
  imports Main
begin

section \<open>The countdown widget of \<open>src/src/Countdown.jsx\<close>\<close>

text \<open>
  Timestamps are JavaScript numbers holding milliseconds since the epoch. They are
  modelled as \<^typ>\<open>int\<close>: the data model of the widget takes a timestamp to be an
  integer, and on integers of the magnitude of a date the arithmetic of the source
  (\<open>-\<close>, \<open>*\<close>, \<open>Math.abs\<close>, \<open>Math.floor (x / c)\<close>) is exact. \<open>Math.floor (x / c)\<close>
  with a positive constant \<open>c\<close> is \<open>x div c\<close>, which rounds towards minus infinity on
  \<^typ>\<open>int\<close> as \<open>Math.floor\<close> does.

  \<open>Date.now ()\<close> reads the clock of the host. Every function that calls it takes the
  value read as its first argument \<open>now\<close>.
\<close>

subsection \<open>The state of the countdown\<close>

datatype CountdownState = RUNNING | PAUSED | TIMEDOUT

subsection \<open>Remaining seconds\<close>

definition calculateRemainingSeconds :: "int \<Rightarrow> int \<Rightarrow> int" where
  "calculateRemainingSeconds now endTimestamp =
     (let diff = endTimestamp - now
      in if diff > 0 then diff div 1000 else - 1)"

subsection \<open>The difference of two timestamps\<close>

record delta =
  hours :: int
  minutes :: int
  seconds :: int

definition calculateTimeDifference :: "int \<Rightarrow> int \<Rightarrow> delta" where
  "calculateTimeDifference startTimestamp endTimestamp =
     (let delta0 = \<lparr>hours = 0, minutes = 0, seconds = 0\<rparr>
      in if startTimestamp > endTimestamp then delta0
         else
           let deltaInMillis = \<bar>startTimestamp - endTimestamp\<bar>;
               seconds1 = deltaInMillis div 1000;
               h = seconds1 div 3600;
               seconds2 = seconds1 - h * 3600;
               m = seconds2 div 60;
               seconds3 = seconds2 - m * 60
           in delta0\<lparr>hours := h, minutes := m, seconds := seconds3\<rparr>)"

subsection \<open>Numbers as text\<close>

text \<open>
  \<open>'0' + n\<close> and \<open>n + ':'\<close> concatenate strings: the number operand is converted by
  the \<open>ToString\<close> of the language, which for an integer is its decimal numeral, with a
  leading minus sign when it is negative.
\<close>

definition digit :: "nat \<Rightarrow> char" where
  "digit n = ''0123456789'' ! n"

fun decimal :: "nat \<Rightarrow> string" where
  "decimal n = (if n < 10 then [digit n] else decimal (n div 10) @ [digit (n mod 10)])"

declare decimal.simps [simp del]

definition numberToString :: "int \<Rightarrow> string" where
  "numberToString i = (if i < 0 then CHR ''-'' # decimal (nat (- i)) else decimal (nat i))"

subsection \<open>The formatter\<close>

text \<open>
  \<open>hoursString\<close>, \<open>minutesString\<close> and \<open>secondsString\<close> hold a string when the field is
  below ten and the number itself otherwise; the number is converted when it is
  concatenated with \<open>':'\<close>, so that every use of the three is a string.
\<close>

definition formatDeltaTimeAsString :: "delta \<Rightarrow> string" where
  "formatDeltaTimeAsString d =
     (let hoursString =
            (if hours d < 10 then ''0'' @ numberToString (hours d)
             else numberToString (hours d));
          minutesString =
            (if minutes d < 10 then ''0'' @ numberToString (minutes d)
             else numberToString (minutes d));
          secondsString =
            (if seconds d < 10 then ''0'' @ numberToString (seconds d)
             else numberToString (seconds d))
      in if hours d > 0 then hoursString @ '':'' @ minutesString @ '':'' @ secondsString
         else minutesString @ '':'' @ secondsString)"

text \<open>
  The format as the specification words it: every field is padded with zeros on the left
  to a width of two, and the hours field is left out when the hours are zero.
\<close>

definition spec_zeroPad2 :: "string \<Rightarrow> string" where
  "spec_zeroPad2 str = replicate (2 - length str) CHR ''0'' @ str"

definition spec_formatDelta :: "delta \<Rightarrow> string" where
  "spec_formatDelta d =
     (if hours d > 0
      then spec_zeroPad2 (numberToString (hours d)) @ '':''
             @ spec_zeroPad2 (numberToString (minutes d)) @ '':''
             @ spec_zeroPad2 (numberToString (seconds d))
      else spec_zeroPad2 (numberToString (minutes d)) @ '':''
             @ spec_zeroPad2 (numberToString (seconds d)))"

subsection \<open>The component\<close>

text \<open>
  The properties of the component: the target and whether the optional callback
  \<open>onTimedOut\<close> is supplied.
\<close>

record props =
  endTimestamp :: int
  onTimedOut :: bool

text \<open>
  The two state variables of the component, and the number of times \<open>onTimedOut\<close> has
  been called so far, which is the effect of the component on its environment.
\<close>

record state =
  countdownState :: CountdownState
  remainingSeconds :: int
  timedOutCalls :: nat


text \<open>
  The effect hook has no dependency list, so the timer is installed again after every
  render, and the \<open>tick\<close> and \<open>togglePaused\<close> that run are those of the latest render: each
  reads the state its predecessor wrote.
\<close>

definition tick :: "props \<Rightarrow> int \<Rightarrow> state \<Rightarrow> state" where
  "tick p now s =
     (if countdownState s = RUNNING then
        let remainder = calculateRemainingSeconds now (endTimestamp p);
            s1 = s\<lparr>remainingSeconds := remainder\<rparr>
        in if remainder < 0 then
             let s2 = (if onTimedOut p
                       then s1\<lparr>timedOutCalls := timedOutCalls s1 + 1\<rparr> else s1)
             in s2\<lparr>countdownState := TIMEDOUT\<rparr>
           else s1
      else s)"

definition togglePaused :: "state \<Rightarrow> state" where
  "togglePaused s =
     (if countdownState s = PAUSED then s\<lparr>countdownState := RUNNING\<rparr>
      else if countdownState s = RUNNING then s\<lparr>countdownState := PAUSED\<rparr>
      else s)"

text \<open>
  A step of the component is a firing of the timer, at the instant the clock shows then,
  or a click on the button.
\<close>

datatype event = Tick int | Toggle

fun step :: "props \<Rightarrow> event \<Rightarrow> state \<Rightarrow> state" where
  "step p (Tick now) s = tick p now s"
| "step p Toggle s = togglePaused s"

fun run :: "props \<Rightarrow> event list \<Rightarrow> state \<Rightarrow> state" where
  "run p [] s = s"
| "run p (e # es) s = run p es (step p e s)"


subsection \<open>Rendering\<close>

text \<open>
  What a render reads from the host: the clock, the language of the browser, and the
  two locale-dependent formatters of \<open>Date\<close>, which are taken as they are.
\<close>

record host =
  dateNow :: int
  language :: string
  toLocaleDateString :: "string \<Rightarrow> int \<Rightarrow> string"
  toLocaleTimeString :: "int \<Rightarrow> string"

record view =
  titling :: string
  timer :: string
  testEnd :: string
  endDate :: string
  button :: string

text \<open>The non-breaking space of the markup, in UTF-8.\<close>

definition nbsp :: string where
  "nbsp = [char_of (194 :: nat), char_of (160 :: nat)]"

definition Countdown :: "props \<Rightarrow> host \<Rightarrow> state \<Rightarrow> view" where
  "Countdown p h s =
     (let isPaused = (countdownState s = PAUSED);
          d = calculateTimeDifference (dateNow h) (endTimestamp p);
          lang = language h;
          german = (take 2 lang = ''de'');
          testTitlingString = (if german then ''Restliche Testzeit'' else ''Remaining test time'');
          testEndString = (if german then ''Dieser Test endet am'' else ''This test ends on'');
          endDateString =
            (if german
             then toLocaleDateString h ''de-de'' (endTimestamp p) @ '' um ''
                    @ toLocaleTimeString h (endTimestamp p) @ '' Uhr''
             else toLocaleDateString h ''en-us'' (endTimestamp p) @ '' at ''
                    @ toLocaleTimeString h (endTimestamp p))
      in \<lparr>titling = testTitlingString,
          timer = formatDeltaTimeAsString d,
          testEnd = testEndString @ nbsp,
          endDate = endDateString,
          button = (if isPaused then ''Resume'' else ''Pause'') @ '' this!''\<rparr>)"

section \<open>Properties of the remaining-seconds probe\<close>

text \<open>
  Claim C3. Whenever the target lies strictly before the current instant
  (\<open>target < now\<close>), \<open>calculateRemainingSeconds\<close> evaluated at that instant returns
  the sentinel \<open>-1\<close>.
\<close>

theorem calculateRemainingSeconds_passed:
  "target < now \<Longrightarrow> calculateRemainingSeconds now target = - 1"
  by (simp add: calculateRemainingSeconds_def)

theorem calculateRemainingSeconds_passed_witness:
  "(1000::int) < 2500 \<and> calculateRemainingSeconds 2500 1000 = - 1"
  using calculateRemainingSeconds_passed [of 1000 2500] by simp

text \<open>
  Claim C10. \<open>calculateRemainingSeconds\<close> returns \<open>-1\<close> if and only if
  \<open>target \<le> now\<close>; in particular it returns \<open>-1\<close> when the target equals the current
  instant, \<open>-1\<close> is the only negative value it returns, and for
  \<open>0 < target - now < 1000\<close> it returns \<open>0\<close>.
\<close>

theorem calculateRemainingSeconds_sentinel:
  "(calculateRemainingSeconds now target = - 1 \<longleftrightarrow> target \<le> now)
   \<and> calculateRemainingSeconds now now = - 1
   \<and> (calculateRemainingSeconds now target < 0
        \<longrightarrow> calculateRemainingSeconds now target = - 1)
   \<and> (0 < target - now \<and> target - now < 1000
        \<longrightarrow> calculateRemainingSeconds now target = 0)"
proof -
  have pos: "0 \<le> (target - now) div 1000" if "0 < target - now"
    using that by (simp add: pos_imp_zdiv_nonneg_iff)
  have iff: "calculateRemainingSeconds now target = - 1 \<longleftrightarrow> target \<le> now"
  proof (cases "target \<le> now")
    case True
    then show ?thesis by (simp add: calculateRemainingSeconds_def)
  next
    case False
    then have "0 < target - now" by simp
    from pos [OF this] False show ?thesis
      by (simp add: calculateRemainingSeconds_def)
  qed
  have eq: "calculateRemainingSeconds now now = - 1"
    by (simp add: calculateRemainingSeconds_def)
  have neg: "calculateRemainingSeconds now target = - 1"
    if "calculateRemainingSeconds now target < 0"
  proof (cases "target \<le> now")
    case True
    then show ?thesis using iff by simp
  next
    case False
    then have "0 < target - now" by simp
    from pos [OF this] False that show ?thesis
      by (simp add: calculateRemainingSeconds_def)
  qed
  have zero: "calculateRemainingSeconds now target = 0"
    if "0 < target - now" "target - now < 1000"
    using that by (simp add: calculateRemainingSeconds_def Let_def)
  from iff eq neg zero show ?thesis by blast
qed

theorem calculateRemainingSeconds_sentinel_witness:
  "calculateRemainingSeconds 5000 5000 = - 1
   \<and> calculateRemainingSeconds 5000 4000 = - 1
   \<and> calculateRemainingSeconds 5000 5999 = 0
   \<and> calculateRemainingSeconds 5000 5001 \<noteq> - 1"
proof -
  have a: "calculateRemainingSeconds 5000 5000 = - 1"
    by (rule calculateRemainingSeconds_sentinel [of 5000 5000, THEN conjunct2, THEN conjunct1])
  have b: "calculateRemainingSeconds 5000 4000 = - 1"
    using calculateRemainingSeconds_sentinel [of 5000 4000, THEN conjunct1] by simp
  have c: "calculateRemainingSeconds 5000 5999 = 0"
    using calculateRemainingSeconds_sentinel [of 5000 5999] by simp
  have d: "calculateRemainingSeconds 5000 5001 \<noteq> - 1"
    using calculateRemainingSeconds_sentinel [of 5000 5001] by simp
  from a b c d show ?thesis by blast
qed

section \<open>Properties of the time-delta calculator\<close>











section \<open>Properties of the formatter\<close>

lemma decimal_lt_10:
  "n < 10 \<Longrightarrow> decimal n = [digit n]"
  by (subst decimal.simps) simp

lemma decimal_ge_10:
  "10 \<le> n \<Longrightarrow> decimal n = decimal (n div 10) @ [digit (n mod 10)]"
  by (subst decimal.simps) simp

lemma length_decimal_pos:
  "Suc 0 \<le> length (decimal n)"
  by (subst decimal.simps) simp

lemma length_decimal_ge_10:
  assumes "10 \<le> n"
  shows "2 \<le> length (decimal n)"
proof -
  have "length (decimal n) = length (decimal (n div 10)) + 1"
    using assms by (simp add: decimal_ge_10)
  with length_decimal_pos [of "n div 10"] show ?thesis by linarith
qed

lemma length_decimal_ge_100:
  assumes "100 \<le> n"
  shows "2 < length (decimal n)"
proof -
  from assms have n: "10 \<le> n" and d: "10 \<le> n div 10" by simp_all
  have "length (decimal n) = length (decimal (n div 10)) + 1"
    using n by (simp only: decimal_ge_10 length_append list.size)
  moreover have "2 \<le> length (decimal (n div 10))"
    using d by (rule length_decimal_ge_10)
  ultimately show ?thesis by linarith
qed

lemma decimal_two_digits:
  assumes "10 \<le> n" and "n < 100"
  shows "decimal n = [digit (n div 10), digit (n mod 10)]"
proof -
  from assms have "n div 10 < 10" by simp
  then have "decimal (n div 10) = [digit (n div 10)]"
    by (rule decimal_lt_10)
  with assms show ?thesis by (simp add: decimal_ge_10)
qed

lemma numberToString_nonneg:
  "0 \<le> i \<Longrightarrow> numberToString i = decimal (nat i)"
  by (simp add: numberToString_def)

lemma zero_prefix_is_zeroPad2:
  assumes "0 \<le> i"
  shows "(if i < 10 then ''0'' @ numberToString i else numberToString i)
         = spec_zeroPad2 (numberToString i)"
proof (cases "i < 10")
  case True
  with assms have "nat i < 10" by simp
  then have "decimal (nat i) = [digit (nat i)]"
    by (rule decimal_lt_10)
  with assms True show ?thesis
    by (simp add: numberToString_nonneg spec_zeroPad2_def)
next
  case False
  with assms have "10 \<le> nat i" by simp
  then have "2 \<le> length (decimal (nat i))"
    by (rule length_decimal_ge_10)
  with assms False show ?thesis
    by (simp add: numberToString_nonneg spec_zeroPad2_def)
qed

lemma zeroPad2_two_digits:
  assumes "0 \<le> i" and "i < 100"
  shows "spec_zeroPad2 (numberToString i) = [digit (nat i div 10), digit (nat i mod 10)]"
proof (cases "i < 10")
  case True
  with assms have lt: "nat i < 10" by simp
  then have "decimal (nat i) = [digit (nat i)]"
    by (rule decimal_lt_10)
  moreover from lt have "nat i div 10 = 0" and "nat i mod 10 = nat i" by simp_all
  moreover have "digit 0 = CHR ''0''" by (simp add: digit_def)
  ultimately show ?thesis
    using assms by (simp add: numberToString_nonneg spec_zeroPad2_def)
next
  case False
  with assms have "10 \<le> nat i" and "nat i < 100" by simp_all
  then have "decimal (nat i) = [digit (nat i div 10), digit (nat i mod 10)]"
    by (rule decimal_two_digits)
  with assms show ?thesis
    by (simp add: numberToString_nonneg spec_zeroPad2_def)
qed

lemma formatDeltaTimeAsString_refines:
  assumes "0 \<le> hours d" and "0 \<le> minutes d" and "0 \<le> seconds d"
  shows "formatDeltaTimeAsString d = spec_formatDelta d"
  unfolding formatDeltaTimeAsString_def spec_formatDelta_def Let_def
    zero_prefix_is_zeroPad2 [OF assms(1)] zero_prefix_is_zeroPad2 [OF assms(2)]
    zero_prefix_is_zeroPad2 [OF assms(3)]
  by (rule refl)

lemma format_0_5_9:
  "formatDeltaTimeAsString \<lparr>hours = 0, minutes = 5, seconds = 9\<rparr> = ''05:09''"
  by (simp add: formatDeltaTimeAsString_def numberToString_def decimal_lt_10 digit_def)

lemma format_2_0_1:
  "formatDeltaTimeAsString \<lparr>hours = 2, minutes = 0, seconds = 1\<rparr> = ''02:00:01''"
  by (simp add: formatDeltaTimeAsString_def numberToString_def decimal_lt_10 digit_def)

text \<open>
  Claim C4. For every delta whose fields are in range (\<open>hours \<ge> 0\<close>, \<open>0 \<le> minutes \<le> 59\<close>,
  \<open>0 \<le> seconds \<le> 59\<close>), \<open>formatDeltaTimeAsString\<close> pads each field with zeros to two
  digits and leaves the hours field out exactly when the hours are zero: the result is
  \<open>HH:MM:SS\<close> when \<open>hours > 0\<close> and \<open>MM:SS\<close> otherwise. The minutes and the seconds
  fields are the two decimal digits of the number, and so is the hours field below one
  hundred hours; from one hundred hours on the hours field is the decimal numeral of the
  hours, which padding leaves as it is. In particular the delta \<open>{0,5,9}\<close> is formatted
  as \<open>05:09\<close> and the delta \<open>{2,0,1}\<close> as \<open>02:00:01\<close>.
\<close>

theorem formatDeltaTimeAsString_zero_padded:
  assumes "0 \<le> hours d" and "0 \<le> minutes d" and "minutes d \<le> 59"
    and "0 \<le> seconds d" and "seconds d \<le> 59"
  shows "formatDeltaTimeAsString d = spec_formatDelta d
    \<and> formatDeltaTimeAsString d =
        (if hours d > 0
         then spec_zeroPad2 (numberToString (hours d)) @ '':''
                @ [digit (nat (minutes d) div 10), digit (nat (minutes d) mod 10)] @ '':''
                @ [digit (nat (seconds d) div 10), digit (nat (seconds d) mod 10)]
         else [digit (nat (minutes d) div 10), digit (nat (minutes d) mod 10)] @ '':''
                @ [digit (nat (seconds d) div 10), digit (nat (seconds d) mod 10)])
    \<and> (if hours d < 100
        then spec_zeroPad2 (numberToString (hours d))
               = [digit (nat (hours d) div 10), digit (nat (hours d) mod 10)]
        else spec_zeroPad2 (numberToString (hours d)) = decimal (nat (hours d))
               \<and> 2 < length (decimal (nat (hours d))))
    \<and> formatDeltaTimeAsString \<lparr>hours = 0, minutes = 5, seconds = 9\<rparr> = ''05:09''
    \<and> formatDeltaTimeAsString \<lparr>hours = 2, minutes = 0, seconds = 1\<rparr> = ''02:00:01''"
proof -
  have ref: "formatDeltaTimeAsString d = spec_formatDelta d"
    using assms(1,2,4) by (rule formatDeltaTimeAsString_refines)
  have m: "spec_zeroPad2 (numberToString (minutes d))
      = [digit (nat (minutes d) div 10), digit (nat (minutes d) mod 10)]"
    using assms(2,3) by (intro zeroPad2_two_digits) simp_all
  have s: "spec_zeroPad2 (numberToString (seconds d))
      = [digit (nat (seconds d) div 10), digit (nat (seconds d) mod 10)]"
    using assms(4,5) by (intro zeroPad2_two_digits) simp_all
  have expl: "formatDeltaTimeAsString d =
        (if hours d > 0
         then spec_zeroPad2 (numberToString (hours d)) @ '':''
                @ [digit (nat (minutes d) div 10), digit (nat (minutes d) mod 10)] @ '':''
                @ [digit (nat (seconds d) div 10), digit (nat (seconds d) mod 10)]
         else [digit (nat (minutes d) div 10), digit (nat (minutes d) mod 10)] @ '':''
                @ [digit (nat (seconds d) div 10), digit (nat (seconds d) mod 10)])"
    unfolding ref spec_formatDelta_def m s by (rule refl)
  have h: "if hours d < 100
        then spec_zeroPad2 (numberToString (hours d))
               = [digit (nat (hours d) div 10), digit (nat (hours d) mod 10)]
        else spec_zeroPad2 (numberToString (hours d)) = decimal (nat (hours d))
               \<and> 2 < length (decimal (nat (hours d)))"
  proof (cases "hours d < 100")
    case True
    with assms(1) show ?thesis by (simp add: zeroPad2_two_digits)
  next
    case False
    with assms(1) have "100 \<le> nat (hours d)" by simp
    then have "2 < length (decimal (nat (hours d)))"
      by (rule length_decimal_ge_100)
    with assms(1) False show ?thesis
      by (simp add: numberToString_nonneg spec_zeroPad2_def)
  qed
  from ref expl h format_0_5_9 format_2_0_1 show ?thesis by (intro conjI)
qed

theorem formatDeltaTimeAsString_zero_padded_witness:
  "formatDeltaTimeAsString \<lparr>hours = 12, minutes = 34, seconds = 7\<rparr> = ''12:34:07''
   \<and> formatDeltaTimeAsString \<lparr>hours = 0, minutes = 59, seconds = 0\<rparr> = ''59:00''
   \<and> formatDeltaTimeAsString \<lparr>hours = 100, minutes = 0, seconds = 0\<rparr> = ''100:00:00''"
proof -
  have a: "formatDeltaTimeAsString \<lparr>hours = 12, minutes = 34, seconds = 7\<rparr> = ''12:34:07''"
    using formatDeltaTimeAsString_zero_padded
      [of "\<lparr>hours = 12, minutes = 34, seconds = 7\<rparr>", THEN conjunct1]
    by (simp add: spec_formatDelta_def spec_zeroPad2_def numberToString_def
        decimal_lt_10 decimal_ge_10 digit_def)
  have b: "formatDeltaTimeAsString \<lparr>hours = 0, minutes = 59, seconds = 0\<rparr> = ''59:00''"
    using formatDeltaTimeAsString_zero_padded
      [of "\<lparr>hours = 0, minutes = 59, seconds = 0\<rparr>", THEN conjunct1]
    by (simp add: spec_formatDelta_def spec_zeroPad2_def numberToString_def
        decimal_lt_10 decimal_ge_10 digit_def)
  have c: "formatDeltaTimeAsString \<lparr>hours = 100, minutes = 0, seconds = 0\<rparr> = ''100:00:00''"
    using formatDeltaTimeAsString_zero_padded
      [of "\<lparr>hours = 100, minutes = 0, seconds = 0\<rparr>", THEN conjunct1]
    by (simp add: spec_formatDelta_def spec_zeroPad2_def numberToString_def
        decimal_lt_10 decimal_ge_10 digit_def)
  from a b c show ?thesis by (intro conjI)
qed

section \<open>Properties of the countdown state machine\<close>


lemma tick_running_timeout:
  "countdownState s = RUNNING \<Longrightarrow> calculateRemainingSeconds now (endTimestamp p) < 0 \<Longrightarrow>
   tick p now s =
     \<lparr>countdownState = TIMEDOUT,
      remainingSeconds = calculateRemainingSeconds now (endTimestamp p),
      timedOutCalls = (if onTimedOut p then timedOutCalls s + 1 else timedOutCalls s)\<rparr>"
  by (simp add: tick_def Let_def)

lemma tick_running_continue:
  "countdownState s = RUNNING \<Longrightarrow> \<not> calculateRemainingSeconds now (endTimestamp p) < 0 \<Longrightarrow>
   tick p now s = s\<lparr>remainingSeconds := calculateRemainingSeconds now (endTimestamp p)\<rparr>"
  by (simp add: tick_def Let_def)

lemma togglePaused_state:
  "countdownState (togglePaused s) =
     (case countdownState s of RUNNING \<Rightarrow> PAUSED | PAUSED \<Rightarrow> RUNNING | TIMEDOUT \<Rightarrow> TIMEDOUT)"
  by (cases "countdownState s") (simp_all add: togglePaused_def)

lemma togglePaused_calls:
  "timedOutCalls (togglePaused s) = timedOutCalls s"
  by (simp add: togglePaused_def)

lemma tick_state:
  "countdownState (tick p now s) =
     (if countdownState s = RUNNING \<and> calculateRemainingSeconds now (endTimestamp p) < 0
      then TIMEDOUT else countdownState s)"
  by (simp add: tick_def Let_def)

lemma tick_calls:
  "timedOutCalls (tick p now s) =
     (if countdownState s = RUNNING \<and> calculateRemainingSeconds now (endTimestamp p) < 0
         \<and> onTimedOut p
      then timedOutCalls s + 1 else timedOutCalls s)"
  by (simp add: tick_def Let_def)




lemma step_calls:
  "timedOutCalls (step p e s) =
     timedOutCalls s
     + (if onTimedOut p \<and> countdownState s = RUNNING \<and> countdownState (step p e s) = TIMEDOUT
        then 1 else 0)"
proof (cases e)
  case (Tick now)
  then show ?thesis by (simp add: tick_state tick_calls)
next
  case Toggle
  then show ?thesis
    by (cases "countdownState s") (simp_all add: togglePaused_state togglePaused_calls)
qed



lemma run_calls_absent:
  "\<not> onTimedOut p \<Longrightarrow> timedOutCalls (run p evs s) = timedOutCalls s"
proof (induction evs arbitrary: s)
  case Nil
  show ?case by simp
next
  case (Cons e evs)
  then show ?case by (simp add: step_calls [of p e s])
qed


text \<open>
  Claim C6. The pause/resume toggle takes RUNNING to PAUSED and PAUSED to RUNNING, so
  that applying it twice from either of these states restores the state, and it does
  nothing when the state is TIMEDOUT.
\<close>

theorem togglePaused_alternates:
  "(countdownState s = RUNNING \<longrightarrow> countdownState (togglePaused s) = PAUSED)
   \<and> (countdownState s = PAUSED \<longrightarrow> countdownState (togglePaused s) = RUNNING)
   \<and> (countdownState s = RUNNING \<or> countdownState s = PAUSED
        \<longrightarrow> togglePaused (togglePaused s) = s)
   \<and> (countdownState s = TIMEDOUT \<longrightarrow> togglePaused s = s)"
  by (cases "countdownState s") (simp_all add: togglePaused_def)

theorem togglePaused_alternates_witness:
  "countdownState (togglePaused \<lparr>countdownState = RUNNING, remainingSeconds = 41, timedOutCalls = 0\<rparr>)
     = PAUSED
   \<and> togglePaused (togglePaused \<lparr>countdownState = PAUSED, remainingSeconds = 41, timedOutCalls = 0\<rparr>)
     = \<lparr>countdownState = PAUSED, remainingSeconds = 41, timedOutCalls = 0\<rparr>
   \<and> togglePaused \<lparr>countdownState = TIMEDOUT, remainingSeconds = - 1, timedOutCalls = 1\<rparr>
     = \<lparr>countdownState = TIMEDOUT, remainingSeconds = - 1, timedOutCalls = 1\<rparr>"
proof -
  have a: "countdownState
      (togglePaused \<lparr>countdownState = RUNNING, remainingSeconds = 41, timedOutCalls = 0\<rparr>)
      = PAUSED"
    using togglePaused_alternates
      [of "\<lparr>countdownState = RUNNING, remainingSeconds = 41, timedOutCalls = 0\<rparr>"]
    by simp
  have b: "togglePaused
      (togglePaused \<lparr>countdownState = PAUSED, remainingSeconds = 41, timedOutCalls = 0\<rparr>)
      = \<lparr>countdownState = PAUSED, remainingSeconds = 41, timedOutCalls = 0\<rparr>"
    using togglePaused_alternates
      [of "\<lparr>countdownState = PAUSED, remainingSeconds = 41, timedOutCalls = 0\<rparr>"]
    by simp
  have c: "togglePaused \<lparr>countdownState = TIMEDOUT, remainingSeconds = - 1, timedOutCalls = 1\<rparr>
      = \<lparr>countdownState = TIMEDOUT, remainingSeconds = - 1, timedOutCalls = 1\<rparr>"
    using togglePaused_alternates
      [of "\<lparr>countdownState = TIMEDOUT, remainingSeconds = - 1, timedOutCalls = 1\<rparr>"]
    by simp
  from a b c show ?thesis by (intro conjI)
qed







section \<open>Properties of the rendering\<close>

text \<open>
  Claim C9. On every render, in every countdown state, the time shown is
  \<open>formatDeltaTimeAsString (calculateTimeDifference now target)\<close> for the value \<open>now\<close> of
  the clock at that render: it depends on the clock and the target only, not on whether
  the state is RUNNING, PAUSED or TIMEDOUT.
\<close>

theorem Countdown_timer:
  "timer (Countdown p h s)
     = formatDeltaTimeAsString (calculateTimeDifference (dateNow h) (endTimestamp p))
   \<and> (dateNow h = dateNow h' \<and> endTimestamp p = endTimestamp p'
        \<longrightarrow> timer (Countdown p h s) = timer (Countdown p' h' s'))"
  by (simp add: Countdown_def Let_def)

theorem Countdown_timer_witness:
  "timer (Countdown \<lparr>endTimestamp = 42000, onTimedOut = False\<rparr>
      \<lparr>dateNow = 1000, language = ''de-DE'', toLocaleDateString = (\<lambda>l t. ''''),
       toLocaleTimeString = (\<lambda>t. '''')\<rparr>
      \<lparr>countdownState = PAUSED, remainingSeconds = 41, timedOutCalls = 0\<rparr>) = ''00:41''
   \<and> timer (Countdown \<lparr>endTimestamp = 42000, onTimedOut = True\<rparr>
      \<lparr>dateNow = 1000, language = ''en-US'', toLocaleDateString = (\<lambda>l t. ''''),
       toLocaleTimeString = (\<lambda>t. '''')\<rparr>
      \<lparr>countdownState = TIMEDOUT, remainingSeconds = - 1, timedOutCalls = 1\<rparr>) = ''00:41''"
proof -
  let ?p = "\<lparr>endTimestamp = 42000, onTimedOut = False\<rparr>"
  let ?p' = "\<lparr>endTimestamp = 42000, onTimedOut = True\<rparr>"
  let ?h = "\<lparr>dateNow = 1000, language = ''de-DE'', toLocaleDateString = (\<lambda>l t. ''''),
       toLocaleTimeString = (\<lambda>t. '''')\<rparr>"
  let ?h' = "\<lparr>dateNow = 1000, language = ''en-US'', toLocaleDateString = (\<lambda>l t. ''''),
       toLocaleTimeString = (\<lambda>t. '''')\<rparr>"
  let ?s = "\<lparr>countdownState = PAUSED, remainingSeconds = 41, timedOutCalls = 0\<rparr>"
  let ?s' = "\<lparr>countdownState = TIMEDOUT, remainingSeconds = - 1, timedOutCalls = 1\<rparr>"
  have d: "calculateTimeDifference 1000 42000 = \<lparr>hours = 0, minutes = 0, seconds = 41\<rparr>"
    by (simp add: calculateTimeDifference_def Let_def)
  have f: "formatDeltaTimeAsString \<lparr>hours = 0, minutes = 0, seconds = 41\<rparr> = ''00:41''"
    by (simp add: formatDeltaTimeAsString_def numberToString_def decimal_lt_10 decimal_ge_10
        digit_def)
  have a: "timer (Countdown ?p ?h ?s) = ''00:41''"
    using Countdown_timer [where p = ?p and h = ?h and s = ?s, THEN conjunct1]
    by (simp add: d f)
  have "dateNow ?h = dateNow ?h' \<and> endTimestamp ?p = endTimestamp ?p'"
    by simp
  with Countdown_timer [where p = ?p and h = ?h and s = ?s and p' = ?p' and h' = ?h'
      and s' = ?s', THEN conjunct2]
  have "timer (Countdown ?p ?h ?s) = timer (Countdown ?p' ?h' ?s')"
    by (rule mp)
  with a have b: "timer (Countdown ?p' ?h' ?s') = ''00:41''"
    by simp
  from a b show ?thesis by (intro conjI)
qed

end
